theory Spec2Isabelle
  imports Complex_Main
begin

section \<open>Data model\<close>

text \<open>
  The retro camera keeps its whole state in React state variables of the \<open>App\<close>
  component. Every handler runs to completion on the single UI thread, and React
  re-renders before the next event is handled, so a handler reads the values of the
  state variables as of the end of the previous handler. The model follows this: one
  record holds the state variables, and each handler of the source is a function from
  that record to the updated one.

  JavaScript numbers are modelled without rounding: coordinates and angles are
  \<open>real\<close>, counters and stack orders are \<open>int\<close>.
\<close>

subsection \<open>Photo (types.ts)\<close>

text \<open>
  The interface \<open>Photo\<close>. The fields \<open>id\<close>, \<open>x\<close> and \<open>y\<close> are named
  \<open>photo_id\<close>, \<open>x_pos\<close> and \<open>y_pos\<close> here. Every place of the source that builds
  a \<open>Photo\<close> sets \<open>isStaticNegative\<close> and \<open>isEjecting\<close>, so both are plain
  booleans; the optional strings are options.
\<close>

record photo =
  photo_id :: string
  dataUrl :: string
  timestamp :: int
  caption :: "string option"
  isDeveloping :: bool
  isStaticNegative :: bool
  isEjecting :: bool
  customText :: "string option"
  x_pos :: real
  y_pos :: real
  rotation :: real
  zIndex :: int
  backNote :: "string option"

subsection \<open>CameraState (types.ts, with the power switch of App.tsx)\<close>

record cameraState =
  permissionGranted :: bool
  isFlashOn :: bool
  isCapturing :: bool
  isPoweredOn :: bool

subsection \<open>Rows of the remote table \<open>photos\<close>\<close>

text \<open>
  A row as the remote store delivers it (columns \<open>id\<close>, \<open>created_at\<close>,
  \<open>user_id\<close>, \<open>room_id\<close>, \<open>data_url\<close>, \<open>caption\<close>, \<open>x\<close>, \<open>y\<close>,
  \<open>rotation\<close>, \<open>z_index\<close>). \<open>created_at\<close> is the creation time in milliseconds,
  which is what \<open>new Date(p.created_at).getTime()\<close> reads from it.
\<close>

record row =
  row_id :: string
  created_at :: int
  user_id :: "string option"
  room_id :: string
  data_url :: string
  row_caption :: "string option"
  row_x :: real
  row_y :: real
  row_rotation :: real
  z_index :: int

text \<open>
  The object handed to \<open>supabase.from('photos').insert\<close>: the store fills in
  \<open>id\<close>, \<open>created_at\<close> and \<open>user_id\<close> itself.
\<close>

record insert_request =
  ins_room_id :: string
  ins_data_url :: string
  ins_caption :: "string option"
  ins_x :: real
  ins_y :: real
  ins_rotation :: real
  ins_z_index :: int

subsection \<open>Deferred work\<close>

text \<open>
  Callbacks handed to \<open>setTimeout\<close>, with what each closure captured. The eject
  callback of \<open>takePhoto\<close> captures the encoded frame and the caption settings of the
  render that took the photo.
\<close>

datatype timer =
    PageFlashOff
  | EjectPhoto string bool string
  | ResetCapturing
  | EndEjection
  | StopDeveloping string
  | ReloadDone

text \<open>Requests sent to the remote store.\<close>

datatype request =
    Select string
  | Insert insert_request
  | Subscribe string
  | RemoveChannel string
  | SignOut

subsection \<open>What a render hands to its closures\<close>

text \<open>
  \<open>handlePendingDragEnd\<close> reads \<open>pendingPhoto\<close>, \<open>maxZIndex\<close>, \<open>user\<close> and
  \<open>room\<close> from the render that created it. The window listeners that
  \<open>Polaroid.handleStart\<close> registers keep the \<open>onDragEnd\<close> of the render of the
  press, so at the release these four values are those of the press, while the
  functional updaters (\<open>setPhotos(prev => ...)\<close>, \<open>setMaxZIndex(prev => prev + 1)\<close>)
  see the current state.
\<close>

record closure =
  cl_pendingPhoto :: "photo option"
  cl_maxZIndex :: int
  cl_user :: "string option"
  cl_room :: string

subsection \<open>The state variables of App (App.tsx)\<close>

text \<open>
  \<open>user\<close> holds the id of the signed-in user. The fields from \<open>outbox\<close> on are
  not React state: they record the effects a handler leaves behind, namely the requests
  sent to the remote store, the \<open>alert\<close> notices shown, the scheduled timers with
  their delays in milliseconds, the rooms of the fetches still in flight, the rooms of
  the open channels, the ids whose caption was requested, the number of inserts whose
  \<open>await\<close> has not returned, and the closure held by the window listeners that
  \<open>Polaroid.handleStart\<close> registers for the pending card.
\<close>

record app =
  user :: "string option"
  isAuthOpen :: bool
  state :: cameraState
  photos :: "photo list"
  shotsLeft :: int
  isReloading :: bool
  pendingPhoto :: "photo option"
  isAiEnabled :: bool
  maxZIndex :: int
  customText_st :: string
  isSettingsOpen :: bool
  showPageFlash :: bool
  room :: string
  outbox :: "request list"
  alerts :: "string list"
  timers :: "(nat \<times> timer) list"
  fetches :: "string list"
  channels :: "string list"
  captionCalls :: "string list"
  awaitingInsert :: nat
  dragListener :: "closure option"

section \<open>Card store operations\<close>

text \<open>
  The updater the INSERT handler passes to \<open>setPhotos\<close> (App.tsx, lines 171-174):
  \<open>prev.find\<close> yields the first entry with the new photo's id, an object and therefore
  truthy, or \<open>undefined\<close>.
\<close>

definition insertIfAbsent :: "photo \<Rightarrow> photo list \<Rightarrow> photo list" where
  "insertIfAbsent newPhoto prev =
     (case find (\<lambda>existing. photo_id existing = photo_id newPhoto) prev of
        Some existing \<Rightarrow> prev
      | None \<Rightarrow> prev @ [newPhoto])"

text \<open>The Reset button: \<open>onClick={() => setPhotos([])}\<close> (App.tsx, line 749).\<close>

definition resetPhotos :: "app \<Rightarrow> app" where
  "resetPhotos s = s\<lparr>photos := []\<rparr>"

text \<open>
  \<open>bringToFront\<close> (App.tsx, lines 247-256). It raises the stored photo with the given
  id and, when the pending photo has that id, clears the pending photo's ejecting flag.
\<close>

definition bringToFront :: "string \<Rightarrow> app \<Rightarrow> app" where
  "bringToFront i s =
     (let newZ = maxZIndex s + 1;
          s1 = s\<lparr>maxZIndex := newZ,
                 photos := map (\<lambda>p. if photo_id p = i then p\<lparr>zIndex := newZ\<rparr> else p) (photos s)\<rparr>
      in case pendingPhoto s of
           None \<Rightarrow> s1
         | Some pp \<Rightarrow>
             if photo_id pp = i
             then s1\<lparr>pendingPhoto := map_option (\<lambda>p. p\<lparr>isEjecting := False\<rparr>) (pendingPhoto s1)\<rparr>
             else s1)"

text \<open>The callback of the 5200 ms timer that ends the developing animation of one id.\<close>

definition stopDeveloping :: "string \<Rightarrow> app \<Rightarrow> app" where
  "stopDeveloping i s =
     s\<lparr>photos := map (\<lambda>ph. if photo_id ph = i then ph\<lparr>isDeveloping := False\<rparr> else ph) (photos s)\<rparr>"

section \<open>Room synchronisation (App.tsx, lines 110-186)\<close>

text \<open>JavaScript truthiness of an optional string: \<open>null\<close> and the empty string are falsy.\<close>

definition truthy :: "string option \<Rightarrow> bool" where
  "truthy c = (case c of None \<Rightarrow> False | Some t \<Rightarrow> t \<noteq> [])"

text \<open>
  The query of \<open>fetchPhotos\<close> as the remote store answers it over its table:
  \<open>.eq('room_id', room).order('created_at', { ascending: true }).limit(50)\<close>, that is
  the rows of the room, sorted by creation time ascending, cut after the first 50.
\<close>

definition selectPhotos :: "string \<Rightarrow> row list \<Rightarrow> row list" where
  "selectPhotos r tbl = take 50 (sort_key created_at (filter (\<lambda>p. room_id p = r) tbl))"

text \<open>The object \<open>fetchPhotos\<close> builds from a row (lines 127-140).\<close>

definition mappedPhoto :: "row \<Rightarrow> photo" where
  "mappedPhoto p =
     \<lparr>photo_id = row_id p, dataUrl = data_url p, timestamp = created_at p,
      caption = row_caption p, isDeveloping = False, isStaticNegative = False,
      isEjecting = False,
      customText = (if truthy (row_caption p) then None else Some ''Shared Memory''),
      x_pos = row_x p, y_pos = row_y p, rotation = row_rotation p, zIndex = z_index p,
      backNote = None\<rparr>"

text \<open>
  \<open>fetchPhotos\<close> after its \<open>await\<close> (lines 125-145). \<open>data\<close> is \<open>null\<close> when the
  request failed; an empty array is truthy.
\<close>

definition fetchPhotos_resume :: "row list option \<Rightarrow> app \<Rightarrow> app" where
  "fetchPhotos_resume data s =
     (case data of
        None \<Rightarrow> s
      | Some rows \<Rightarrow>
          (let mapped = map mappedPhoto rows;
               s1 = s\<lparr>photos := mapped\<rparr>
           in if length mapped > 0
              then s1\<lparr>maxZIndex := Max (set (map zIndex mapped)) + 1\<rparr>
              else s1))"

text \<open>The object the INSERT handler builds from the payload (lines 154-168).\<close>

definition newPhotoOfPayload :: "row \<Rightarrow> photo" where
  "newPhotoOfPayload p =
     \<lparr>photo_id = row_id p, dataUrl = data_url p, timestamp = created_at p,
      caption = row_caption p, isDeveloping = True, isStaticNegative = False,
      isEjecting = False,
      customText = (if truthy (row_caption p) then None else Some ''Shared Memory''),
      x_pos = row_x p, y_pos = row_y p, rotation = row_rotation p, zIndex = z_index p,
      backNote = None\<rparr>"

text \<open>The handler of \<open>postgres_changes\<close> INSERT events (lines 153-180).\<close>

definition onInsert :: "row \<Rightarrow> app \<Rightarrow> app" where
  "onInsert p s =
     s\<lparr>photos := insertIfAbsent (newPhotoOfPayload p) (photos s),
       timers := timers s @ [(5200, StopDeveloping (row_id p))]\<rparr>"

text \<open>
  The body of the effect with dependencies \<open>[room, user]\<close>, and the cleanup it returns
  when it ran with a user: the channel it removes is the one of the room it ran for.
\<close>

definition roomEffect :: "app \<Rightarrow> app" where
  "roomEffect s =
     (case user s of
        None \<Rightarrow> s\<lparr>photos := []\<rparr>
      | Some u \<Rightarrow>
          s\<lparr>outbox := outbox s @ [Select (room s), Subscribe (room s)],
            fetches := fetches s @ [room s],
            channels := channels s @ [room s]\<rparr>)"

definition roomEffect_cleanup :: "string \<Rightarrow> app \<Rightarrow> app" where
  "roomEffect_cleanup r s =
     s\<lparr>outbox := outbox s @ [RemoveChannel r], channels := remove1 r (channels s)\<rparr>"

text \<open>
  A change of \<open>room\<close> or \<open>user\<close>: React runs the cleanup of the previous run, if that
  run returned one, and then the effect again. \<open>setUser\<close> receives a new object with
  every session, so the effect runs again unless the user was and stays \<open>null\<close>.
\<close>

definition setRoom :: "string \<Rightarrow> app \<Rightarrow> app" where
  "setRoom r s =
     (if r = room s then s
      else roomEffect ((if user s = None then s else roomEffect_cleanup (room s) s)\<lparr>room := r\<rparr>))"

definition setUser :: "string option \<Rightarrow> app \<Rightarrow> app" where
  "setUser u s =
     (if u = None \<and> user s = None then s
      else roomEffect ((if user s = None then s else roomEffect_cleanup (room s) s)\<lparr>user := u\<rparr>))"

section \<open>Capture and the pending slot (App.tsx, lines 258-439)\<close>

text \<open>
  What \<open>takePhoto\<close> finds outside the React state: the refs, the video element and the
  canvas contexts, and the data URL the square canvas encodes. The sounds, the position
  of the flash burst and the flash of the camera body change nothing the model keeps and
  are left out.
\<close>

record capture_env =
  videoRef :: bool
  canvasRef :: bool
  readyState :: nat
  videoWidth :: nat
  videoHeight :: nat
  hasCtx :: bool
  hasSquareCtx :: bool
  frameDataUrl :: string

definition takePhoto :: "capture_env \<Rightarrow> app \<Rightarrow> app" where
  "takePhoto e s =
     (if pendingPhoto s \<noteq> None then s
      else if shotsLeft s \<le> 0 \<or> isReloading s \<or> \<not> isPoweredOn (state s) then s
      else if \<not> videoRef e \<or> \<not> canvasRef e \<or> isCapturing (state s) then s
      else if readyState e < 2 \<or> videoWidth e = 0 \<or> videoHeight e = 0 then s
      else
        (let s1 = s\<lparr>state := (state s)\<lparr>isCapturing := True\<rparr>, shotsLeft := shotsLeft s - 1\<rparr>;
             s2 = (if isFlashOn (state s)
                   then s1\<lparr>showPageFlash := True, timers := timers s1 @ [(400, PageFlashOff)]\<rparr>
                   else s1)
         in if \<not> hasCtx e then s2
            else if hasSquareCtx e
            then s2\<lparr>timers := timers s2 @
                     [(4000, EjectPhoto (frameDataUrl e) (isAiEnabled s) (customText_st s))]\<rparr>
            else s2))"

text \<open>
  What the eject callback finds when it runs: the id \<open>crypto.randomUUID()\<close> returns,
  \<open>Date.now()\<close>, the camera body's rectangle (left, width, bottom) if the ref is set,
  and \<open>window.innerWidth\<close>.
\<close>

record eject_env =
  newId :: string
  nowMs :: int
  cameraRect :: "(real \<times> real \<times> real) option"
  innerWidth :: real

text \<open>
  The callback of the 4000 ms timer of \<open>takePhoto\<close> (lines 317-377), with the frame
  and the caption settings its closure holds.
\<close>

definition ejectPhoto :: "eject_env \<Rightarrow> string \<Rightarrow> bool \<Rightarrow> string \<Rightarrow> app \<Rightarrow> app" where
  "ejectPhoto e url ai ctext s =
     (let spawn = (case cameraRect e of
                     None \<Rightarrow> (100, 100)
                   | Some (left, width, bottom) \<Rightarrow>
                       (left + width / 2 - (if innerWidth e < 640 then 112 else 128),
                        bottom - 60));
          newPhoto = \<lparr>photo_id = newId e, dataUrl = url, timestamp = nowMs e,
                      caption = None, isDeveloping = False, isStaticNegative = True,
                      isEjecting = True,
                      customText = (if ai then None else Some ctext),
                      x_pos = fst spawn, y_pos = snd spawn, rotation = 0, zIndex = 1,
                      backNote = None\<rparr>;
          s1 = s\<lparr>pendingPhoto := Some newPhoto\<rparr>;
          s2 = (if ai then s1\<lparr>captionCalls := captionCalls s1 @ [newId e]\<rparr> else s1)
      in s2\<lparr>timers := timers s2 @ [(500, ResetCapturing), (3000, EndEjection)]\<rparr>)"

text \<open>
  The callback of \<open>generateCaption(dataUrl).then\<close> in App.tsx (lines 354-364): the
  update of the saved photos is commented out there.
\<close>

definition onCaption :: "string \<Rightarrow> string \<Rightarrow> app \<Rightarrow> app" where
  "onCaption i c s =
     s\<lparr>pendingPhoto :=
         (case pendingPhoto s of
            None \<Rightarrow> None
          | Some current \<Rightarrow> if photo_id current = i then Some (current\<lparr>caption := Some c\<rparr>) else Some current)\<rparr>"

text \<open>
  The same callback in the local-only variant of the application (part 000, lines
  241-251), which also patches the saved photos.
\<close>

definition onCaption_local :: "string \<Rightarrow> string \<Rightarrow> app \<Rightarrow> app" where
  "onCaption_local i c s =
     (onCaption i c s)
       \<lparr>photos := map (\<lambda>p. if photo_id p = i then p\<lparr>caption := Some c\<rparr> else p) (photos s)\<rparr>"

text \<open>The callbacks of the 3000 ms and 500 ms timers of the eject callback.\<close>

definition endEjection :: "app \<Rightarrow> app" where
  "endEjection s =
     s\<lparr>pendingPhoto := map_option (\<lambda>current. current\<lparr>isEjecting := False\<rparr>) (pendingPhoto s)\<rparr>"

definition resetCapturing :: "app \<Rightarrow> app" where
  "resetCapturing s = s\<lparr>state := (state s)\<lparr>isCapturing := False\<rparr>\<rparr>"

text \<open>
  \<open>handlePendingDragEnd\<close> up to its \<open>await\<close> (App.tsx, lines 381-428). \<open>c\<close> is the
  closure of the render the function belongs to, \<open>rnd\<close> the value of
  \<open>Math.random()\<close>. With a user the function sends the insert and suspends; without
  one it runs to its end.
\<close>

definition handlePendingDragEnd ::
  "closure \<Rightarrow> real \<Rightarrow> string \<Rightarrow> real \<Rightarrow> real \<Rightarrow> app \<Rightarrow> app" where
  "handlePendingDragEnd c rnd i x y s =
     (case cl_pendingPhoto c of
        None \<Rightarrow> s
      | Some pp \<Rightarrow>
          if photo_id pp \<noteq> i then s
          else
            (let rot = rnd * 10 - 5;
                 z = cl_maxZIndex c + 1
             in case cl_user c of
                  Some u \<Rightarrow>
                    s\<lparr>outbox := outbox s @
                         [Insert \<lparr>ins_room_id = cl_room c, ins_data_url = dataUrl pp,
                                  ins_caption = caption pp, ins_x = x, ins_y = y,
                                  ins_rotation = rot, ins_z_index = z\<rparr>],
                      awaitingInsert := awaitingInsert s + 1\<rparr>
                | None \<Rightarrow>
                    (let finalPhoto = pp\<lparr>x_pos := x, y_pos := y, isEjecting := False,
                                          isDeveloping := True, isStaticNegative := False,
                                          rotation := rot, zIndex := z\<rparr>
                     in s\<lparr>photos := photos s @ [finalPhoto],
                          timers := timers s @ [(5200, StopDeveloping i)],
                          maxZIndex := maxZIndex s + 1,
                          pendingPhoto := None\<rparr>)))"

text \<open>
  \<open>handlePendingDragEnd\<close> after the \<open>await\<close> of the insert (lines 404-407 and
  426-427; the same text in part 001, lines 929-932 and 950-951); \<open>error\<close> is the
  error the remote store reported, if any. \<open>alert\<close> opens a modal dialog and returns
  when the user dismisses it: until then the rest of the handler has not run and no
  other handler runs. So the handler either runs to its end, or stands at the open dialog
  with the state as it was when the insert returned.
\<close>

datatype 'a outcome = Finished 'a | AlertOpen string 'a

text \<open>Lines 426-427: \<open>setMaxZIndex(prev => prev + 1); setPendingPhoto(null)\<close>.\<close>

definition handlePendingDragEnd_finish :: "'a app_scheme \<Rightarrow> 'a app_scheme" where
  "handlePendingDragEnd_finish s =
     s\<lparr>maxZIndex := maxZIndex s + 1, pendingPhoto := None,
       awaitingInsert := awaitingInsert s - 1\<rparr>"

text \<open>From the return of the insert to the end of the handler or to the dialog.\<close>

definition handlePendingDragEnd_settled ::
  "string option \<Rightarrow> 'a app_scheme \<Rightarrow> 'a app_scheme outcome" where
  "handlePendingDragEnd_settled error s =
     (case error of
        Some e \<Rightarrow> AlertOpen ''Failed to save photo to the cloud!'' s
      | None \<Rightarrow> Finished (handlePendingDragEnd_finish s))"

text \<open>
  The user dismisses the dialog, if one is open, and the handler runs to its end;
  \<open>alerts\<close> records the notices that were shown.
\<close>

definition dismissAlert :: "'a app_scheme outcome \<Rightarrow> 'a app_scheme" where
  "dismissAlert r =
     (case r of
        Finished s \<Rightarrow> s
      | AlertOpen msg s \<Rightarrow> handlePendingDragEnd_finish (s\<lparr>alerts := alerts s @ [msg]\<rparr>))"

definition handlePendingDragEnd_resume ::
  "string option \<Rightarrow> 'a app_scheme \<Rightarrow> 'a app_scheme" where
  "handlePendingDragEnd_resume error s = dismissAlert (handlePendingDragEnd_settled error s)"

text \<open>\<open>handleReload\<close> (lines 430-439) and the callback of its 2000 ms timer.\<close>

definition handleReload :: "app \<Rightarrow> app" where
  "handleReload s =
     (if isReloading s then s
      else s\<lparr>isReloading := True, timers := timers s @ [(2000, ReloadDone)]\<rparr>)"

definition reloadDone :: "app \<Rightarrow> app" where
  "reloadDone s = s\<lparr>shotsLeft := 8, isReloading := False\<rparr>"

section \<open>The variant with presence and viewport fractions (part 001, lines 397-1294)\<close>

text \<open>
  This variant of \<open>App\<close> adds the cursors of the other users, an \<open>ignore\<close> flag in
  the room effect, and coordinates stored as fractions of the viewport. Its state is the
  state above with the cursor map, the \<open>ignore\<close> variables of the runs of the room
  effect (one per run, addressed by the number of the run), the number of runs so far
  and \<open>channelRef\<close>. Its video mode and its room-key warning are left out; so is the
  field \<open>mediaType\<close> it adds to \<open>Photo\<close>.
\<close>

record cursor =
  cur_x :: real
  cur_y :: real
  cur_color :: string
  lastUpdate :: int

record app2 = app +
  cursors :: "string \<rightharpoonup> cursor"
  ignoreFlag :: "nat \<Rightarrow> bool"
  effectRuns :: nat
  channelRef :: "string option"

text \<open>
  The room effect (lines 526-632). The run numbered \<open>effectRuns s\<close> starts with its
  \<open>ignore\<close> variable false; its cleanup sets that variable.
\<close>

definition roomEffect_v2 :: "app2 \<Rightarrow> app2" where
  "roomEffect_v2 s =
     (case user s of
        None \<Rightarrow> s\<lparr>photos := []\<rparr>
      | Some u \<Rightarrow>
          s\<lparr>photos := [], cursors := Map.empty,
            ignoreFlag := (ignoreFlag s)(effectRuns s := False),
            effectRuns := effectRuns s + 1,
            outbox := outbox s @ [Select (room s), Subscribe (room s)],
            fetches := fetches s @ [room s],
            channels := channels s @ [room s],
            channelRef := Some (room s)\<rparr>)"

definition roomEffect_cleanup_v2 :: "nat \<Rightarrow> string \<Rightarrow> app2 \<Rightarrow> app2" where
  "roomEffect_cleanup_v2 k r s =
     s\<lparr>ignoreFlag := (ignoreFlag s)(k := True),
       outbox := outbox s @ [RemoveChannel r],
       channels := remove1 r (channels s),
       channelRef := None\<rparr>"

text \<open>
  The object built from a row (lines 549-566 and 582-599): coordinates within [0, 1] on
  both axes are scaled by \<open>window.innerWidth\<close> and \<open>window.innerHeight\<close>.
\<close>

definition isNormalized :: "row \<Rightarrow> bool" where
  "isNormalized p = (row_x p \<ge> 0 \<and> row_x p \<le> 1 \<and> row_y p \<ge> 0 \<and> row_y p \<le> 1)"

definition photoOfRow_v2 :: "bool \<Rightarrow> real \<Rightarrow> real \<Rightarrow> row \<Rightarrow> photo" where
  "photoOfRow_v2 developing w h p =
     \<lparr>photo_id = row_id p, dataUrl = data_url p, timestamp = created_at p,
      caption = row_caption p, isDeveloping = developing, isStaticNegative = False,
      isEjecting = False,
      customText = (if truthy (row_caption p) then None else Some ''Shared Memory''),
      x_pos = (if isNormalized p then row_x p * w else row_x p),
      y_pos = (if isNormalized p then row_y p * h else row_y p),
      rotation = row_rotation p, zIndex = z_index p, backNote = None\<rparr>"

text \<open>\<open>fetchPhotos\<close> after its \<open>await\<close>, in the run numbered \<open>k\<close> (lines 547-571).\<close>

definition fetchPhotos_resume_v2 ::
  "nat \<Rightarrow> real \<Rightarrow> real \<Rightarrow> row list option \<Rightarrow> app2 \<Rightarrow> app2" where
  "fetchPhotos_resume_v2 k w h data s =
     (if ignoreFlag s k then s
      else case data of
        None \<Rightarrow> s
      | Some rows \<Rightarrow>
          (let mapped = map (photoOfRow_v2 False w h) rows;
               s1 = s\<lparr>photos := mapped\<rparr>
           in if length mapped > 0
              then s1\<lparr>maxZIndex := Max (set (map zIndex mapped)) + 1\<rparr>
              else s1))"

text \<open>The INSERT handler of the run numbered \<open>k\<close> (lines 579-609).\<close>

definition onInsert_v2 :: "nat \<Rightarrow> real \<Rightarrow> real \<Rightarrow> row \<Rightarrow> app2 \<Rightarrow> app2" where
  "onInsert_v2 k w h p s =
     (if ignoreFlag s k then s
      else s\<lparr>photos := insertIfAbsent (photoOfRow_v2 True w h p) (photos s),
             timers := timers s @ [(5200, StopDeveloping (row_id p))]\<rparr>)"

text \<open>
  The CURSOR handler (lines 614-622) of a run whose user has id \<open>me\<close>; \<open>now\<close> is
  \<open>Date.now()\<close>. It does not read the \<open>ignore\<close> variable.
\<close>

definition onCursor_v2 ::
  "string \<Rightarrow> string \<Rightarrow> real \<Rightarrow> real \<Rightarrow> string \<Rightarrow> int \<Rightarrow> app2 \<Rightarrow> app2" where
  "onCursor_v2 me userId x y col now s =
     (if userId = me then s
      else s\<lparr>cursors := (cursors s)(userId \<mapsto>
               \<lparr>cur_x = x, cur_y = y, cur_color = col, lastUpdate = now\<rparr>)\<rparr>)"

text \<open>
  \<open>handlePendingDragEnd\<close> up to its \<open>await\<close> (lines 909-952); \<open>w\<close> and \<open>h\<close> are
  \<open>window.innerWidth\<close> and \<open>window.innerHeight\<close>, which are positive for a window
  that shows anything.
\<close>

definition handlePendingDragEnd_v2 ::
  "closure \<Rightarrow> real \<Rightarrow> real \<Rightarrow> real \<Rightarrow> string \<Rightarrow> real \<Rightarrow> real \<Rightarrow> app2 \<Rightarrow> app2" where
  "handlePendingDragEnd_v2 c rnd w h i x y s =
     (case cl_pendingPhoto c of
        None \<Rightarrow> s
      | Some pp \<Rightarrow>
          if photo_id pp \<noteq> i then s
          else
            (let rot = rnd * 10 - 5;
                 z = cl_maxZIndex c + 1
             in case cl_user c of
                  Some u \<Rightarrow>
                    (let xPercent = x / w;
                         yPercent = y / h
                     in s\<lparr>outbox := outbox s @
                            [Insert \<lparr>ins_room_id = cl_room c, ins_data_url = dataUrl pp,
                                     ins_caption = caption pp, ins_x = xPercent,
                                     ins_y = yPercent, ins_rotation = rot,
                                     ins_z_index = z\<rparr>],
                          awaitingInsert := awaitingInsert s + 1\<rparr>)
                | None \<Rightarrow>
                    (let finalPhoto = pp\<lparr>x_pos := x, y_pos := y, isEjecting := False,
                                          isDeveloping := True, isStaticNegative := False,
                                          rotation := rot, zIndex := z\<rparr>
                     in s\<lparr>photos := photos s @ [finalPhoto],
                          timers := timers s @ [(5200, StopDeveloping i)],
                          maxZIndex := maxZIndex s + 1,
                          pendingPhoto := None\<rparr>)))"

section \<open>Reading the effects\<close>

text \<open>The values a render hands to the closures it creates.\<close>

definition render :: "'a app_scheme \<Rightarrow> closure" where
  "render s =
     \<lparr>cl_pendingPhoto = pendingPhoto s, cl_maxZIndex = maxZIndex s, cl_user = user s,
      cl_room = room s\<rparr>"

text \<open>The insert requests among the requests sent, in the order they were sent.\<close>

fun inserts :: "request list \<Rightarrow> insert_request list" where
  "inserts [] = []"
| "inserts (Insert r # rs) = r # inserts rs"
| "inserts (q # rs) = inserts rs"

section \<open>The cards on screen and the events of the application\<close>

text \<open>
  \<open>Polaroid.handleStart\<close> (part 003, lines 81-158), for a card with the given
  \<open>onFocus\<close> and \<open>onDragEnd\<close>. A press on the text area of the back, or on a card
  that is ejecting, returns before anything happens. Otherwise the card calls
  \<open>onFocus\<close> with its id and registers its window listeners; where the card has an
  \<open>onDragEnd\<close>, the listeners hold the closure of the render of the press.
\<close>

definition handleStart ::
  "bool \<Rightarrow> photo \<Rightarrow> (string \<Rightarrow> app \<Rightarrow> app) \<Rightarrow> closure option \<Rightarrow> app \<Rightarrow> app" where
  "handleStart onTextarea ph onFocus onDragEnd s =
     (if onTextarea then s
      else if isEjecting ph then s
      else (onFocus (photo_id ph) s)
             \<lparr>dragListener := (case onDragEnd of None \<Rightarrow> dragListener s | Some c \<Rightarrow> Some c)\<rparr>)"

text \<open>
  A press on the pending card (App.tsx, lines 504-529): the card is rendered only while
  a photo is pending, shows that photo at the local position (20, 0), and focuses it
  with \<open>() => bringToFront(pendingPhoto.id)\<close>.
\<close>

definition pressPending :: "bool \<Rightarrow> app \<Rightarrow> app" where
  "pressPending onTextarea s =
     (case pendingPhoto s of
        None \<Rightarrow> s
      | Some pp \<Rightarrow>
          handleStart onTextarea (pp\<lparr>x_pos := 20, y_pos := 0\<rparr>)
            (\<lambda>i. bringToFront (photo_id pp)) (Some (render s)) s)"

text \<open>
  A press on the \<open>n\<close>-th saved card (App.tsx, lines 774-778), which has
  \<open>onFocus={bringToFront}\<close> and no \<open>onDragEnd\<close>.
\<close>

definition pressPhoto :: "nat \<Rightarrow> bool \<Rightarrow> app \<Rightarrow> app" where
  "pressPhoto n onTextarea s =
     (if n < length (photos s) then handleStart onTextarea (photos s ! n) bringToFront None s
      else s)"

text \<open>
  The release that ends a drag of the pending card: \<open>handleWindowUp\<close> (part 003,
  lines 115-150) removes the listeners and calls the \<open>onDragEnd\<close> of App.tsx, lines
  522-527, with the card's id and its local position \<open>(lx, ly)\<close>.
\<close>

definition releasePending :: "real \<Rightarrow> real \<Rightarrow> real \<Rightarrow> app \<Rightarrow> app" where
  "releasePending rnd lx ly s =
     (case dragListener s of
        None \<Rightarrow> s
      | Some c \<Rightarrow>
          (case cl_pendingPhoto c of
             None \<Rightarrow> s\<lparr>dragListener := None\<rparr>
           | Some pp \<Rightarrow>
               handlePendingDragEnd c rnd (photo_id pp) (x_pos pp - 20 + lx) (y_pos pp + ly)
                 (s\<lparr>dragListener := None\<rparr>)))"

text \<open>
  Typing on the back of the \<open>n\<close>-th saved card (part 003, lines 235-240): the card
  writes \<open>photo.backNote\<close>, and its \<open>photo\<close> is the object held in \<open>photos\<close>.
\<close>

definition typeNote :: "nat \<Rightarrow> string \<Rightarrow> app \<Rightarrow> app" where
  "typeNote n t s =
     (if n < length (photos s)
      then s\<lparr>photos := (photos s)[n := (photos s ! n)\<lparr>backNote := Some t\<rparr>]\<rparr>
      else s)"

text \<open>The remaining click handlers of App.tsx (lines 583, 620, 713, 721, 702).\<close>

definition clickFlash :: "app \<Rightarrow> app" where
  "clickFlash s =
     (if isPoweredOn (state s) then s\<lparr>state := (state s)\<lparr>isFlashOn := \<not> isFlashOn (state s)\<rparr>\<rparr>
      else s)"

definition clickLens :: "app \<Rightarrow> app" where
  "clickLens s = s\<lparr>state := (state s)\<lparr>isPoweredOn := \<not> isPoweredOn (state s)\<rparr>\<rparr>"

definition clickAuth :: "app \<Rightarrow> app" where
  "clickAuth s =
     (if user s \<noteq> None then s\<lparr>outbox := outbox s @ [SignOut]\<rparr> else s\<lparr>isAuthOpen := True\<rparr>)"

text \<open>Running the callback of a timer, and firing the \<open>n\<close>-th scheduled timer.\<close>

fun runTimer :: "eject_env \<Rightarrow> timer \<Rightarrow> app \<Rightarrow> app" where
  "runTimer e PageFlashOff s = s\<lparr>showPageFlash := False\<rparr>"
| "runTimer e (EjectPhoto url ai ctext) s = ejectPhoto e url ai ctext s"
| "runTimer e ResetCapturing s = resetCapturing s"
| "runTimer e EndEjection s = endEjection s"
| "runTimer e (StopDeveloping i) s = stopDeveloping i s"
| "runTimer e ReloadDone s = reloadDone s"

definition fireTimer :: "nat \<Rightarrow> eject_env \<Rightarrow> app \<Rightarrow> app" where
  "fireTimer n e s =
     (if n < length (timers s)
      then runTimer e (snd (timers s ! n))
             (s\<lparr>timers := take n (timers s) @ drop (Suc n) (timers s)\<rparr>)
      else s)"

text \<open>
  The shutter button is disabled (App.tsx, line 653), and the reload button is rendered
  (line 678), under these conditions; a click on a disabled or absent button calls
  nothing.
\<close>

definition shutterDisabled :: "app \<Rightarrow> bool" where
  "shutterDisabled s =
     (\<not> permissionGranted (state s) \<or> isCapturing (state s) \<or> pendingPhoto s \<noteq> None \<or>
      shotsLeft s \<le> 0 \<or> isReloading s \<or> \<not> isPoweredOn (state s))"

definition reloadShown :: "app \<Rightarrow> bool" where
  "reloadShown s = (isPoweredOn (state s) \<and> shotsLeft s = 0 \<and> \<not> isReloading s)"

text \<open>
  What can happen to the application. The first group are the actions of the user; the
  second group are the timers, the camera permission, the caption service and the remote
  store. A fetch in flight is answered from the remote table as it is then, or fails; an
  INSERT event is delivered on an open channel of its room; when an insert settles with
  an error, the user dismisses the dialog and the handler runs to its end.
\<close>

datatype event =
    ClickShutter capture_env
  | ClickReload
  | ClickReset
  | ClickFlash
  | ClickLens
  | ClickAi
  | ClickSettings
  | ClickAuth
  | CloseAuth
  | TypeRoom string
  | TypeCustomText string
  | PressPending bool
  | PressPhoto nat bool
  | ReleasePending real real real
  | TypeNote nat string
  | TimerFires nat eject_env
  | CameraAnswers bool
  | CaptionArrives string string
  | FetchReturns nat "row list option"
  | InsertEvent row
  | InsertSettles "string option"
  | AuthChanges "string option"

fun step :: "event \<Rightarrow> app \<Rightarrow> app" where
  "step (ClickShutter e) s = (if shutterDisabled s then s else takePhoto e s)"
| "step ClickReload s = (if reloadShown s then handleReload s else s)"
| "step ClickReset s = resetPhotos s"
| "step ClickFlash s = clickFlash s"
| "step ClickLens s = clickLens s"
| "step ClickAi s = s\<lparr>isAiEnabled := \<not> isAiEnabled s\<rparr>"
| "step ClickSettings s = s\<lparr>isSettingsOpen := \<not> isSettingsOpen s\<rparr>"
| "step ClickAuth s = clickAuth s"
| "step CloseAuth s = s\<lparr>isAuthOpen := False\<rparr>"
| "step (TypeRoom r) s = setRoom r s"
| "step (TypeCustomText t) s = s\<lparr>customText_st := t\<rparr>"
| "step (PressPending onTextarea) s = pressPending onTextarea s"
| "step (PressPhoto n onTextarea) s = pressPhoto n onTextarea s"
| "step (ReleasePending rnd lx ly) s = releasePending rnd lx ly s"
| "step (TypeNote n t) s = typeNote n t s"
| "step (CameraAnswers granted) s = s\<lparr>state := (state s)\<lparr>permissionGranted := granted\<rparr>\<rparr>"
| "step (TimerFires n e) s = fireTimer n e s"
| "step (CaptionArrives i c) s =
     (if i \<in> set (captionCalls s) then onCaption i c (s\<lparr>captionCalls := remove1 i (captionCalls s)\<rparr>)
      else s)"
| "step (FetchReturns n answer) s =
     (if n < length (fetches s)
      then fetchPhotos_resume (map_option (selectPhotos (fetches s ! n)) answer)
             (s\<lparr>fetches := take n (fetches s) @ drop (Suc n) (fetches s)\<rparr>)
      else s)"
| "step (InsertEvent p) s = (if room_id p \<in> set (channels s) then onInsert p s else s)"
| "step (InsertSettles err) s =
     (if 0 < awaitingInsert s then handlePendingDragEnd_resume err s else s)"
| "step (AuthChanges u) s = setUser u s"

text \<open>A sequence of events, one after the other.\<close>

definition run :: "event list \<Rightarrow> app \<Rightarrow> app" where
  "run es s = foldl (\<lambda>t e. step e t) s es"

text \<open>The initial values of the \<open>useState\<close> calls of App.tsx (lines 63-103).\<close>

definition init :: app where
  "init =
     \<lparr>user = None, isAuthOpen = False,
      state = \<lparr>permissionGranted = False, isFlashOn = False, isCapturing = False,
               isPoweredOn = False\<rparr>,
      photos = [], shotsLeft = 8, isReloading = False, pendingPhoto = None,
      isAiEnabled = True, maxZIndex = 30, customText_st = ''May I meet you'',
      isSettingsOpen = False, showPageFlash = False, room = ''global'',
      outbox = [], alerts = [], timers = [], fetches = [], channels = [],
      captionCalls = [], awaitingInsert = 0, dragListener = None\<rparr>"

text \<open>
  The states the application can reach from its initial state, by any events in any
  order; timers may fire in any order, whatever their delays.
\<close>

inductive reachable :: "app \<Rightarrow> bool" where
  reach_init: "reachable init"
| reach_step: "reachable s \<Longrightarrow> reachable (step e s)"

text \<open>
  The invariant of the capture: at most one eject or reset-capturing timer is scheduled,
  and only while \<open>isCapturing\<close> is set; and while an eject timer is scheduled the
  pending slot is empty.
\<close>

fun isEject :: "timer \<Rightarrow> bool" where
  "isEject (EjectPhoto url ai ctext) = True"
| "isEject t = False"

fun busy :: "timer \<Rightarrow> bool" where
  "busy (EjectPhoto url ai ctext) = True"
| "busy ResetCapturing = True"
| "busy t = False"

fun countTimers :: "(timer \<Rightarrow> bool) \<Rightarrow> (nat \<times> timer) list \<Rightarrow> nat" where
  "countTimers P [] = 0"
| "countTimers P (dt # ts) = (if P (snd dt) then 1 else 0) + countTimers P ts"

definition captureInv :: "app \<Rightarrow> bool" where
  "captureInv s =
     (countTimers busy (timers s) \<le> 1 \<and>
      (countTimers busy (timers s) = 0 \<or> isCapturing (state s)) \<and>
      (countTimers isEject (timers s) = 0 \<or> pendingPhoto s = None))"

section \<open>Sample values\<close>

text \<open>A photo as the eject callback builds it, and the same photo once kept.\<close>

definition ejected :: "string \<Rightarrow> photo" where
  "ejected i =
     \<lparr>photo_id = i, dataUrl = ''data:image/jpeg;base64,AAAA'', timestamp = 1000,
      caption = None, isDeveloping = False, isStaticNegative = True, isEjecting = True,
      customText = None, x_pos = 100, y_pos = 100, rotation = 0, zIndex = 1,
      backNote = None\<rparr>"

definition kept :: "string \<Rightarrow> int \<Rightarrow> photo" where
  "kept i z =
     (ejected i)\<lparr>x_pos := 120, y_pos := 340, isEjecting := False, isDeveloping := True,
                 isStaticNegative := False, rotation := 2, zIndex := z\<rparr>"

text \<open>A camera that is switched on and ready, and a video element with a frame.\<close>

definition ready :: app where
  "ready = init\<lparr>state := \<lparr>permissionGranted = True, isFlashOn = False,
                           isCapturing = False, isPoweredOn = True\<rparr>\<rparr>"

definition frame :: capture_env where
  "frame = \<lparr>videoRef = True, canvasRef = True, readyState = 4, videoWidth = 1280,
            videoHeight = 720, hasCtx = True, hasSquareCtx = True,
            frameDataUrl = ''data:image/jpeg;base64,AAAA''\<rparr>"

text \<open>What the eject callback finds when it makes the photo with the id \<open>i\<close>.\<close>

definition ejectAs :: "string \<Rightarrow> eject_env" where
  "ejectAs i = \<lparr>newId = i, nowMs = 1000, cameraRect = None, innerWidth = 1024\<rparr>"

text \<open>
  A signed-in user switches the camera on and is granted the camera, takes the photo
  \<open>a\<close> and waits for its ejection to end. The user drags \<open>a\<close> away and, while the
  insert of that Keep is in flight and the card is still pending, drags it once more.
  The first insert returns. Then the user takes the photo \<open>b\<close>, which is ejected.
\<close>

definition keptTwice :: "event list" where
  "keptTwice =
     [AuthChanges (Some ''u2''), ClickLens, CameraAnswers True,
      ClickShutter frame, TimerFires 0 (ejectAs ''a''),
      TimerFires 0 (ejectAs ''a''), TimerFires 0 (ejectAs ''a''),
      PressPending False, ReleasePending (1/2) 100 240,
      PressPending False, ReleasePending (1/2) 120 260,
      InsertSettles None]"

definition secondCapture :: "event list" where
  "secondCapture = [ClickShutter frame, TimerFires 0 (ejectAs ''b'')]"

text \<open>
  A pending photo whose ejection is over, in a camera that is ready; the initial state
  of the variant with presence, whose room key starts empty.
\<close>

definition awaiting :: "string \<Rightarrow> app" where
  "awaiting i = ready\<lparr>pendingPhoto := Some ((ejected i)\<lparr>isEjecting := False\<rparr>)\<rparr>"

definition init2 :: app2 where
  "init2 =
     app.extend (init\<lparr>room := []\<rparr>)
       \<lparr>cursors = Map.empty, ignoreFlag = (\<lambda>k. False), effectRuns = 0, channelRef = None\<rparr>"

text \<open>
  The row the remote store makes of an insert request: it adds the id, the creation time
  and the user.
\<close>

definition storedRow :: "string \<Rightarrow> int \<Rightarrow> string \<Rightarrow> insert_request \<Rightarrow> row" where
  "storedRow i t u q =
     \<lparr>row_id = i, created_at = t, user_id = Some u, room_id = ins_room_id q,
      data_url = ins_data_url q, row_caption = ins_caption q, row_x = ins_x q,
      row_y = ins_y q, row_rotation = ins_rotation q, z_index = ins_z_index q\<rparr>"

text \<open>
  In the variant of part 001, with a viewport of 1000 by 800 pixels, the signed-in user
  \<open>u2\<close> drops the pending card \<open>a\<close> at the pixel position (-50, 340), its left
  edge outside the viewport.
\<close>

definition keptOutside :: app2 where
  "keptOutside =
     handlePendingDragEnd_v2
       ((render (awaiting ''a''))\<lparr>cl_user := Some ''u2'', cl_room := ''demo''\<rparr>)
       (1/2) 1000 800 ''a'' (-50) 340 init2"

text \<open>
  Rows of the remote table: the \<open>n\<close>-th card of the room \<open>demo\<close>, created at time
  \<open>n\<close>; a room that holds 51 cards; a card of a given room with a given stack order.
\<close>

definition rowAt :: "nat \<Rightarrow> row" where
  "rowAt n =
     \<lparr>row_id = replicate n (CHR ''p''), created_at = int n, user_id = Some ''u1'',
      room_id = ''demo'', data_url = ''data:image/jpeg;base64,AAAA'',
      row_caption = Some ''Summer'', row_x = 120, row_y = 340, row_rotation = 2,
      z_index = 30 + int n\<rparr>"

definition crowded :: "row list" where
  "crowded = map rowAt [1..<52]"

text \<open>A client that signed in as \<open>u2\<close> and then joined the room \<open>demo\<close>.\<close>

definition joined :: app where
  "joined = setRoom ''demo'' (setUser (Some ''u2'') init)"

definition remoteRow :: "string \<Rightarrow> string \<Rightarrow> int \<Rightarrow> row" where
  "remoteRow i r z =
     \<lparr>row_id = i, created_at = 5000, user_id = Some ''u1'', room_id = r,
      data_url = ''data:image/jpeg;base64,BBBB'', row_caption = Some ''Summer'',
      row_x = 120, row_y = 340, row_rotation = 2, z_index = z\<rparr>"

text \<open>
  A client that signed in as \<open>u2\<close> in the room \<open>global\<close> and then received the INSERT
  events of two cards another client kept, with stack orders 31 and 32.
\<close>

definition visited :: app where
  "visited =
     onInsert (remoteRow ''y'' ''global'' 32)
       (onInsert (remoteRow ''x'' ''global'' 31) (setUser (Some ''u2'') init))"

text \<open>
  A client that signed in as \<open>u2\<close> in the room \<open>global\<close> and switched to the room
  \<open>b\<close> while the fetch for \<open>global\<close> was in flight; the remote table holds one card,
  of the room \<open>global\<close>.
\<close>

definition switched :: app where
  "switched = setRoom ''b'' (setUser (Some ''u2'') init)"

definition oneCard :: "row list" where
  "oneCard = [remoteRow ''g1'' ''global'' 31]"

section \<open>Properties\<close>

subsection \<open>Insertion by id\<close>

lemma find_Some_member: "find P xs = Some y \<Longrightarrow> y \<in> set xs \<and> P y"
  by (induction xs) (auto split: if_splits)

lemma find_photo_id_present:
  "photo_id p \<in> photo_id ` set prev \<Longrightarrow>
   find (\<lambda>existing. photo_id existing = photo_id p) prev \<noteq> None"
  by (auto simp: find_None_iff)

text \<open>
  C7. Inserting a capture whose id is already in the card store returns the store as it
  was: the list has the same entries in the same order, so nothing is duplicated and the
  entry that holds the id keeps its x, y, rotation and stack order. Inserting the same
  capture a second time therefore changes nothing, whatever the store held before.
\<close>

theorem insertIfAbsent_present_unchanged:
  "(photo_id p \<in> photo_id ` set prev \<longrightarrow> insertIfAbsent p prev = prev) \<and>
   insertIfAbsent p (insertIfAbsent p prev) = insertIfAbsent p prev"
proof
  show "photo_id p \<in> photo_id ` set prev \<longrightarrow> insertIfAbsent p prev = prev"
    using find_photo_id_present [of p prev]
    by (auto simp: insertIfAbsent_def split: option.splits)
next
  have "photo_id p \<in> photo_id ` set (insertIfAbsent p prev)"
  proof (cases "find (\<lambda>existing. photo_id existing = photo_id p) prev")
    case None
    then show ?thesis by (simp add: insertIfAbsent_def)
  next
    case (Some existing)
    from find_Some_member [OF Some] have "photo_id p \<in> photo_id ` set prev"
      by (metis imageI)
    with Some show ?thesis by (simp add: insertIfAbsent_def)
  qed
  then show "insertIfAbsent p (insertIfAbsent p prev) = insertIfAbsent p prev"
    using find_photo_id_present [of p "insertIfAbsent p prev"]
    by (auto simp: insertIfAbsent_def split: option.splits)
qed

theorem insertIfAbsent_present_unchanged_witness:
  "photo_id (kept ''a'' 40) \<in> photo_id ` set [kept ''b'' 31, kept ''a'' 32] \<and>
   insertIfAbsent (kept ''a'' 40) [kept ''b'' 31, kept ''a'' 32] = [kept ''b'' 31, kept ''a'' 32]"
proof -
  have h: "photo_id (kept ''a'' 40) \<in> photo_id ` set [kept ''b'' 31, kept ''a'' 32]"
    by (simp add: kept_def ejected_def)
  from insertIfAbsent_present_unchanged [of "kept ''a'' 40" "[kept ''b'' 31, kept ''a'' 32]"] h
  show ?thesis by blast
qed

subsection \<open>Reset\<close>

text \<open>
  C10. The Reset button empties the card store and leaves every other state variable as
  it was: the pending photo, the stack-order counter \<open>maxZIndex\<close>, the film count,
  the reloading flag and the room are the same before and after, and nothing is sent to
  the remote store (no fetch is started and no channel is opened or removed either).
\<close>

theorem resetPhotos_frame:
  "photos (resetPhotos s) = [] \<and>
   pendingPhoto (resetPhotos s) = pendingPhoto s \<and>
   maxZIndex (resetPhotos s) = maxZIndex s \<and>
   shotsLeft (resetPhotos s) = shotsLeft s \<and>
   isReloading (resetPhotos s) = isReloading s \<and>
   room (resetPhotos s) = room s \<and>
   outbox (resetPhotos s) = outbox s \<and>
   fetches (resetPhotos s) = fetches s \<and>
   channels (resetPhotos s) = channels s \<and>
   resetPhotos s = s\<lparr>photos := []\<rparr>"
  by (simp add: resetPhotos_def)

subsection \<open>The pending slot\<close>

lemma takePhoto_occupied: "pendingPhoto s = Some p \<Longrightarrow> takePhoto e s = s"
  by (simp add: takePhoto_def)

text \<open>
  C1. A capture request made while the pending slot holds a capture does nothing: the
  state after \<open>takePhoto\<close> is the state before it, so the pending capture is not
  altered, no timer that would eject another capture is scheduled, and the film count is
  not touched. The same holds for any sequence of capture requests, whatever the video
  element reports at each of them. The slot itself is one optional value, so it never
  holds two captures.
\<close>

theorem takePhoto_occupied_noop:
  "pendingPhoto s = Some p \<Longrightarrow>
   takePhoto e s = s \<and> foldl (\<lambda>t e'. takePhoto e' t) s es = s"
proof
  assume occ: "pendingPhoto s = Some p"
  then show "takePhoto e s = s" by (rule takePhoto_occupied)
  from occ show "foldl (\<lambda>t e'. takePhoto e' t) s es = s"
    by (induction es) (simp_all add: takePhoto_occupied)
qed

theorem takePhoto_occupied_noop_witness:
  "pendingPhoto (ready\<lparr>pendingPhoto := Some (ejected ''a'')\<rparr>) = Some (ejected ''a'') \<and>
   takePhoto frame (ready\<lparr>pendingPhoto := Some (ejected ''a'')\<rparr>)
     = ready\<lparr>pendingPhoto := Some (ejected ''a'')\<rparr> \<and>
   foldl (\<lambda>t e'. takePhoto e' t) (ready\<lparr>pendingPhoto := Some (ejected ''a'')\<rparr>)
     [frame, frame\<lparr>readyState := 0\<rparr>, frame]
     = ready\<lparr>pendingPhoto := Some (ejected ''a'')\<rparr>"
proof -
  have h: "pendingPhoto (ready\<lparr>pendingPhoto := Some (ejected ''a'')\<rparr>) = Some (ejected ''a'')"
    by simp
  from takePhoto_occupied_noop [OF h, of frame "[frame, frame\<lparr>readyState := 0\<rparr>, frame]"] h
  show ?thesis by blast
qed

subsection \<open>Failure of the remote insert\<close>

lemma handlePendingDragEnd_resume_eq:
  "handlePendingDragEnd_resume error s =
     (let s1 = (case error of
                  Some e \<Rightarrow> s\<lparr>alerts := alerts s @ [''Failed to save photo to the cloud!'']\<rparr>
                | None \<Rightarrow> s)
      in s1\<lparr>maxZIndex := maxZIndex s1 + 1, pendingPhoto := None,
            awaitingInsert := awaitingInsert s1 - 1\<rparr>)"
  by (simp add: handlePendingDragEnd_resume_def handlePendingDragEnd_settled_def
        dismissAlert_def handlePendingDragEnd_finish_def split: option.splits)



subsection \<open>Fetch on join\<close>

lemma selectPhotos_shape:
  "length (selectPhotos r tbl) \<le> 50 \<and>
   sorted (map created_at (selectPhotos r tbl)) \<and>
   set (selectPhotos r tbl) \<subseteq> {p \<in> set tbl. room_id p = r}"
proof -
  have "sorted (map created_at (sort_key created_at (filter (\<lambda>p. room_id p = r) tbl)))"
    by (rule sorted_sort_key)
  then have "sorted (take 50 (map created_at (sort_key created_at (filter (\<lambda>p. room_id p = r) tbl))))"
    by (rule sorted_wrt_take)
  moreover have "set (take 50 (sort_key created_at (filter (\<lambda>p. room_id p = r) tbl)))
      \<subseteq> set (sort_key created_at (filter (\<lambda>p. room_id p = r) tbl))"
    by (rule set_take_subset)
  ultimately show ?thesis
    by (auto simp: selectPhotos_def take_map)
qed

lemma fetchPhotos_resume_seeds:
  "photos (fetchPhotos_resume (Some rows) s) = map mappedPhoto rows \<and>
   list_all (\<lambda>p. \<not> isDeveloping p \<and> \<not> isEjecting p) (photos (fetchPhotos_resume (Some rows) s)) \<and>
   maxZIndex (fetchPhotos_resume (Some rows) s) =
     (if rows = [] then maxZIndex s else Max (set (map z_index rows)) + 1)"
  by (simp add: fetchPhotos_resume_def Let_def list_all_iff mappedPhoto_def o_def)

lemma selectPhotos_crowded: "selectPhotos ''demo'' crowded = map rowAt [1..<51]"
proof -
  have f: "filter (\<lambda>p. room_id p = ''demo'') (map rowAt [1..<52]) = map rowAt [1..<52]"
    by (simp add: filter_map o_def rowAt_def del: upt_Suc upt_rec_numeral)
  have "sorted (map created_at (map rowAt [1..<52]))"
    by (simp add: o_def rowAt_def sorted_map del: upt_Suc upt_rec_numeral)
  then have so: "sort_key created_at (map rowAt [1..<52]) = map rowAt [1..<52]"
    by (rule sort_key_id_if_sorted)
  show ?thesis
    by (simp only: selectPhotos_def crowded_def f so take_map)
       (simp del: upt_Suc upt_rec_numeral add: take_upt)
qed

lemma joined_fetch:
  "step (FetchReturns 1 (Some crowded)) joined =
     fetchPhotos_resume (Some (selectPhotos ''demo'' crowded)) (joined\<lparr>fetches := [''global'']\<rparr>)"
  by (simp add: joined_def setRoom_def setUser_def roomEffect_def roomEffect_cleanup_def init_def)

text \<open>
  C4. The query of \<open>fetchPhotos\<close> sorts the cards of the room by creation time
  ascending and keeps the first 50. A signed-in client joins the room \<open>demo\<close>, which
  holds the 51 cards created at the times 1 to 51, and its fetch for that room returns:
  the store is seeded with the cards created at the times 1 to 50, so the oldest card is
  fetched and the most recently created one is not.
\<close>

theorem fetch_of_crowded_room_drops_newest:
  "fetches joined = [''global'', ''demo''] \<and>
   map created_at crowded = map int [1..<52] \<and>
   map room_id crowded = replicate 51 ''demo'' \<and>
   map timestamp (photos (step (FetchReturns 1 (Some crowded)) joined)) = map int [1..<51]"
  unfolding joined_fetch selectPhotos_crowded
  by (simp add: joined_def setRoom_def setUser_def roomEffect_def roomEffect_cleanup_def init_def
        crowded_def fetchPhotos_resume_def Let_def mappedPhoto_def rowAt_def o_def
        map_replicate_const del: upt_Suc upt_rec_numeral)

subsection \<open>Keep with a signed-in user\<close>

text \<open>
  What Keep sends when the handler's render has a pending photo with the id of the
  dragged card and a signed-in user: one insert request with the room, the image, the
  caption of that pending photo, the rotation and the stack order \<open>maxZIndex + 1\<close> of
  that render. In the variant of part 001 the coordinates sent are \<open>x / innerWidth\<close>
  and \<open>y / innerHeight\<close>, which lie between 0 and 1 exactly when the drop point lies
  in the viewport; in App.tsx they are the pixel coordinates \<open>x\<close> and \<open>y\<close>. In both
  the card store is left as it was, before and after the \<open>await\<close>.
\<close>

lemma keep_authenticated_request:
  "cl_pendingPhoto c = Some pp \<and> cl_user c = Some u \<and> 0 < w \<and> 0 < h \<longrightarrow>
   outbox (handlePendingDragEnd_v2 c rnd w h (photo_id pp) x y s) =
     outbox s @ [Insert \<lparr>ins_room_id = cl_room c, ins_data_url = dataUrl pp,
                         ins_caption = caption pp, ins_x = x / w, ins_y = y / h,
                         ins_rotation = rnd * 10 - 5, ins_z_index = cl_maxZIndex c + 1\<rparr>] \<and>
   ((0 \<le> x / w \<and> x / w \<le> 1) = (0 \<le> x \<and> x \<le> w)) \<and>
   ((0 \<le> y / h \<and> y / h \<le> 1) = (0 \<le> y \<and> y \<le> h)) \<and>
   photos (handlePendingDragEnd_v2 c rnd w h (photo_id pp) x y s) = photos s \<and>
   photos (handlePendingDragEnd_resume err s) = photos s \<and>
   outbox (handlePendingDragEnd c rnd (photo_id pp) x y t) =
     outbox t @ [Insert \<lparr>ins_room_id = cl_room c, ins_data_url = dataUrl pp,
                         ins_caption = caption pp, ins_x = x, ins_y = y,
                         ins_rotation = rnd * 10 - 5, ins_z_index = cl_maxZIndex c + 1\<rparr>] \<and>
   photos (handlePendingDragEnd c rnd (photo_id pp) x y t) = photos t \<and>
   photos (handlePendingDragEnd_resume err t) = photos t"
  by (auto simp: handlePendingDragEnd_v2_def handlePendingDragEnd_def
        handlePendingDragEnd_resume_eq Let_def pos_divide_le_eq zero_le_divide_iff
        split: option.splits)

text \<open>
  C5. In the variant of part 001, with a viewport of 1000 by 800 pixels, the card
  dropped at the pixel position (-50, 340) is sent with the coordinates (-1/20, 17/40):
  the x sent is outside the range from 0 to 1. The INSERT handler of the same variant
  takes coordinates outside that range for pixels, so the card comes back at the pixel
  position (-1/20, 17/40) and not where it was dropped. The card store is not touched by
  the Keep. And App.tsx sends the pixel coordinates of the drop, (120, 340), as they
  are.
\<close>

theorem keep_outside_viewport_misplaced:
  "map (\<lambda>q. (ins_x q, ins_y q)) (inserts (outbox keptOutside)) = [(- (1/20), 17/40)] \<and>
   photos keptOutside = [] \<and>
   map (\<lambda>p. (x_pos p, y_pos p))
     (photos (onInsert_v2 0 1000 800
        (storedRow ''r1'' 5000 ''u2'' (hd (inserts (outbox keptOutside)))) keptOutside))
     = [(- (1/20), 17/40)] \<and>
   map (\<lambda>q. (ins_x q, ins_y q)) (inserts (outbox
      (handlePendingDragEnd ((render (awaiting ''a''))\<lparr>cl_user := Some ''u2'', cl_room := ''demo''\<rparr>)
         (1/2) ''a'' 120 340 init))) = [(120, 340)]"
  by (simp add: keptOutside_def handlePendingDragEnd_v2_def handlePendingDragEnd_def
        render_def awaiting_def ready_def init_def init2_def ejected_def Let_def
        app.extend_def onInsert_v2_def insertIfAbsent_def photoOfRow_v2_def isNormalized_def
        storedRow_def truthy_def)

subsection \<open>Late captions\<close>

lemma list_all_map_if:
  "(\<And>p. P p \<Longrightarrow> Q (f p)) \<Longrightarrow>
   list_all (\<lambda>p. P p \<longrightarrow> Q p) (map (\<lambda>p. if P p then f p else p) xs)"
  by (induction xs) simp_all

lemma onCaption_local_patches_store:
  "map photo_id (photos (onCaption_local i c s)) = map photo_id (photos s) \<and>
   list_all (\<lambda>p. photo_id p = i \<longrightarrow> caption p = Some c) (photos (onCaption_local i c s))"
  by (simp add: onCaption_local_def onCaption_def o_def list_all_map_if)

text \<open>
  C8. In App.tsx, with nobody signed in, the pending capture \<open>a\<close> is kept at
  (120, 340) and enters the card store without a caption; its caption \<open>Summer 89\<close>
  resolves afterwards. The callback of App.tsx only looks at the pending slot, which is
  empty by then, so the store entry \<open>a\<close> still has no caption.
\<close>

theorem late_caption_not_stored:
  "pendingPhoto (handlePendingDragEnd (render (awaiting ''a'')) (1/2) ''a'' 120 340 (awaiting ''a''))
     = None \<and>
   map photo_id (photos (onCaption ''a'' ''Summer 89''
      (handlePendingDragEnd (render (awaiting ''a'')) (1/2) ''a'' 120 340 (awaiting ''a''))))
     = [''a''] \<and>
   map caption (photos (onCaption ''a'' ''Summer 89''
      (handlePendingDragEnd (render (awaiting ''a'')) (1/2) ''a'' 120 340 (awaiting ''a''))))
     = [None]"
  by (simp add: handlePendingDragEnd_def render_def awaiting_def ready_def init_def
        ejected_def onCaption_def Let_def)

subsection \<open>Stack order\<close>

lemma bringToFront_counter:
  "maxZIndex (bringToFront i s) = maxZIndex s + 1 \<and>
   list_all (\<lambda>p. photo_id p = i \<longrightarrow> zIndex p = maxZIndex s + 1) (photos (bringToFront i s))"
  by (simp add: bringToFront_def Let_def list_all_map_if split: option.splits)

lemma raise_bounded:
  "list_all (\<lambda>p. zIndex p \<le> m) xs \<Longrightarrow>
   list_all (\<lambda>p. (photo_id p = i \<longrightarrow> zIndex p = m + 1) \<and> (photo_id p \<noteq> i \<longrightarrow> zIndex p \<le> m))
     (map (\<lambda>p. if photo_id p = i then p\<lparr>zIndex := m + 1\<rparr> else p) xs)"
  by (induction xs) simp_all

text \<open>
  While no saved card lies above the counter, \<open>bringToFront\<close> puts the focused card
  strictly above all the others.
\<close>

lemma bringToFront_above_bounded_store:
  "list_all (\<lambda>p. zIndex p \<le> maxZIndex s) (photos s) \<Longrightarrow>
   list_all (\<lambda>p. (photo_id p = i \<longrightarrow> zIndex p = maxZIndex s + 1) \<and>
                 (photo_id p \<noteq> i \<longrightarrow> zIndex p \<le> maxZIndex s))
     (photos (bringToFront i s))"
  using raise_bounded [of "maxZIndex s" "photos s" i]
  by (simp add: bringToFront_def Let_def split: option.splits)

text \<open>
  C3. A client receives the INSERT events of two cards that another client kept with
  the stack orders 31 and 32. The INSERT handler stores them and leaves the counter
  \<open>maxZIndex\<close> at 30. Focusing the second card then assigns it 31, a value that is
  not greater than the ones assigned before and that the first card already holds; and
  a Keep in the same state sends its own card with the stack order 31 as well.
\<close>

theorem remote_cards_share_stack_order:
  "maxZIndex visited = 30 \<and>
   map zIndex (photos visited) = [31, 32] \<and>
   map zIndex (photos (bringToFront ''y'' visited)) = [31, 31] \<and>
   map ins_z_index (inserts (outbox
      (handlePendingDragEnd (render (visited\<lparr>pendingPhoto := Some ((ejected ''a'')\<lparr>isEjecting := False\<rparr>)\<rparr>))
         (1/2) ''a'' 120 340
         (visited\<lparr>pendingPhoto := Some ((ejected ''a'')\<lparr>isEjecting := False\<rparr>)\<rparr>)))) = [31]"
  by (simp add: visited_def onInsert_def insertIfAbsent_def setUser_def roomEffect_def init_def
        remoteRow_def newPhotoOfPayload_def bringToFront_def handlePendingDragEnd_def
        render_def ejected_def Let_def truthy_def)

subsection \<open>Switching rooms\<close>

lemma roomEffect_keeps_store: "user s = Some u \<Longrightarrow> photos (roomEffect s) = photos s"
  by (simp add: roomEffect_def)

lemma roomEffect_v2_clears:
  "photos (roomEffect_v2 s) = [] \<and> (user s = None \<or> cursors (roomEffect_v2 s) = Map.empty)"
  by (simp add: roomEffect_v2_def split: option.splits)

lemma onCursor_v2_after_cleanup:
  "userId \<noteq> me \<Longrightarrow>
   cursors (onCursor_v2 me userId x y col now (roomEffect_cleanup_v2 k r s)) userId =
     Some \<lparr>cur_x = x, cur_y = y, cur_color = col, lastUpdate = now\<rparr>"
  by (simp add: onCursor_v2_def roomEffect_cleanup_v2_def)

lemma ignored_run_applies_nothing:
  "ignoreFlag (roomEffect_cleanup_v2 k r s) k \<and>
   (ignoreFlag s k \<longrightarrow>
      fetchPhotos_resume_v2 k w h data s = s \<and> onInsert_v2 k w h p s = s)"
  by (simp add: roomEffect_cleanup_v2_def fetchPhotos_resume_v2_def onInsert_v2_def)

text \<open>
  C2. In App.tsx a client signs in in the room \<open>global\<close> and switches to the room
  \<open>b\<close> while the fetch for \<open>global\<close> is in flight. The fetch for \<open>b\<close> returns no
  card; then the fetch for \<open>global\<close> returns its card \<open>g1\<close>, and
  \<open>fetchPhotos\<close> stores it: the client is in the room \<open>b\<close> and its card store holds
  a card of the room \<open>global\<close>.
\<close>

theorem stale_fetch_enters_new_room:
  "fetches switched = [''global'', ''b''] \<and>
   photos (step (FetchReturns 1 (Some oneCard)) switched) = [] \<and>
   fetches (step (FetchReturns 1 (Some oneCard)) switched) = [''global''] \<and>
   room (step (FetchReturns 0 (Some oneCard)) (step (FetchReturns 1 (Some oneCard)) switched))
     = ''b'' \<and>
   map photo_id (photos (step (FetchReturns 0 (Some oneCard))
      (step (FetchReturns 1 (Some oneCard)) switched))) = [''g1'']"
  by (simp add: switched_def oneCard_def fetchPhotos_resume_def selectPhotos_def setRoom_def
        setUser_def roomEffect_def roomEffect_cleanup_def init_def remoteRow_def
        mappedPhoto_def Let_def truthy_def)

subsection \<open>The ejection\<close>

text \<open>
  The rest follows the application through its events, in any order.
\<close>

subsubsection \<open>Counting timers\<close>

lemma isEject_busy: "isEject t \<Longrightarrow> busy t"
  by (cases t) simp_all

lemma countTimers_append [simp]: "countTimers P (ts @ us) = countTimers P ts + countTimers P us"
  by (induction ts) simp_all

lemma countTimers_eject_le: "countTimers isEject ts \<le> countTimers busy ts"
  by (induction ts) (auto dest: isEject_busy)

lemma countTimers_nth:
  "n < length ts \<Longrightarrow>
   countTimers P ts =
     countTimers P (take n ts @ drop (Suc n) ts) + (if P (snd (ts ! n)) then 1 else 0)"
proof -
  assume n: "n < length ts"
  have "countTimers P ts = countTimers P (take n ts @ ts ! n # drop (Suc n) ts)"
    using id_take_nth_drop [OF n] by simp
  then show ?thesis by simp
qed

lemma countTimers_zero_nth:
  "countTimers P ts = 0 \<Longrightarrow> n < length ts \<Longrightarrow> \<not> P (snd (ts ! n))"
proof (induction ts arbitrary: n)
  case Nil
  then show ?case by simp
next
  case (Cons dt ts)
  then show ?case by (cases n) (auto split: if_splits)
qed

subsubsection \<open>Each handler keeps the invariant\<close>

lemma inv_takePhoto: "captureInv s \<Longrightarrow> captureInv (takePhoto e s)"
  by (auto simp: takePhoto_def captureInv_def Let_def)

lemma inv_handleReload: "captureInv s \<Longrightarrow> captureInv (handleReload s)"
  by (simp add: handleReload_def captureInv_def)

lemma inv_resetPhotos: "captureInv s \<Longrightarrow> captureInv (resetPhotos s)"
  by (simp add: resetPhotos_def captureInv_def)

lemma inv_clickFlash: "captureInv s \<Longrightarrow> captureInv (clickFlash s)"
  by (simp add: clickFlash_def captureInv_def)

lemma inv_clickLens: "captureInv s \<Longrightarrow> captureInv (clickLens s)"
  by (simp add: clickLens_def captureInv_def)

lemma inv_clickAuth: "captureInv s \<Longrightarrow> captureInv (clickAuth s)"
  by (simp add: clickAuth_def captureInv_def)

lemma inv_roomEffect: "captureInv s \<Longrightarrow> captureInv (roomEffect s)"
  by (simp add: roomEffect_def captureInv_def split: option.splits)

lemma inv_roomEffect_cleanup: "captureInv s \<Longrightarrow> captureInv (roomEffect_cleanup r s)"
  by (simp add: roomEffect_cleanup_def captureInv_def)

lemma inv_room_update: "captureInv s \<Longrightarrow> captureInv (s\<lparr>room := r\<rparr>)"
  by (simp add: captureInv_def)

lemma inv_user_update: "captureInv s \<Longrightarrow> captureInv (s\<lparr>user := u\<rparr>)"
  by (simp add: captureInv_def)

lemma inv_setRoom: "captureInv s \<Longrightarrow> captureInv (setRoom r s)"
  by (simp add: setRoom_def inv_roomEffect inv_roomEffect_cleanup inv_room_update)

lemma inv_setUser: "captureInv s \<Longrightarrow> captureInv (setUser u s)"
  by (simp add: setUser_def inv_roomEffect inv_roomEffect_cleanup inv_user_update)

lemma inv_pressPending: "captureInv s \<Longrightarrow> captureInv (pressPending t s)"
  by (auto simp: pressPending_def handleStart_def bringToFront_def captureInv_def Let_def
        split: option.splits)

lemma inv_pressPhoto: "captureInv s \<Longrightarrow> captureInv (pressPhoto n t s)"
  by (auto simp: pressPhoto_def handleStart_def bringToFront_def captureInv_def Let_def
        split: option.splits)

lemma inv_typeNote: "captureInv s \<Longrightarrow> captureInv (typeNote n t s)"
  by (simp add: typeNote_def captureInv_def)

lemma inv_releasePending: "captureInv s \<Longrightarrow> captureInv (releasePending rnd lx ly s)"
  by (auto simp: releasePending_def handlePendingDragEnd_def captureInv_def Let_def
        split: option.splits)

lemma inv_onCaption: "captureInv s \<Longrightarrow> captureInv (onCaption i c (s\<lparr>captionCalls := cs\<rparr>))"
  by (auto simp: onCaption_def captureInv_def split: option.splits)

lemma inv_fetch: "captureInv s \<Longrightarrow> captureInv (fetchPhotos_resume d (s\<lparr>fetches := fs\<rparr>))"
  by (simp add: fetchPhotos_resume_def captureInv_def Let_def split: option.splits)

lemma inv_onInsert: "captureInv s \<Longrightarrow> captureInv (onInsert p s)"
  by (simp add: onInsert_def captureInv_def)

lemma inv_resume: "captureInv s \<Longrightarrow> captureInv (handlePendingDragEnd_resume err s)"
  by (simp add: handlePendingDragEnd_resume_eq captureInv_def Let_def split: option.splits)

lemma inv_fireTimer:
  assumes inv: "captureInv s"
  shows "captureInv (fireTimer n e s)"
proof (cases "n < length (timers s)")
  case False
  with inv show ?thesis by (simp add: fireTimer_def)
next
  case True
  let ?rest = "take n (timers s) @ drop (Suc n) (timers s)"
  have cb: "countTimers busy (timers s) =
      countTimers busy ?rest + (if busy (snd (timers s ! n)) then 1 else 0)"
    by (rule countTimers_nth [OF True])
  have ce: "countTimers isEject (timers s) =
      countTimers isEject ?rest + (if isEject (snd (timers s ! n)) then 1 else 0)"
    by (rule countTimers_nth [OF True])
  have le: "countTimers isEject ?rest \<le> countTimers busy ?rest"
    by (rule countTimers_eject_le)
  show ?thesis
  proof (cases "snd (timers s ! n)")
    case PageFlashOff
    with inv True cb ce show ?thesis
      by (simp add: fireTimer_def captureInv_def)
  next
    case (EjectPhoto url ai ctext)
    from inv EjectPhoto cb ce le have
      "countTimers busy ?rest = 0" "countTimers isEject ?rest = 0" "isCapturing (state s)"
      by (auto simp: captureInv_def)
    with EjectPhoto True show ?thesis
      by (simp add: fireTimer_def ejectPhoto_def captureInv_def Let_def)
  next
    case ResetCapturing
    from inv ResetCapturing cb ce le have
      "countTimers busy ?rest = 0" "countTimers isEject ?rest = 0"
      by (auto simp: captureInv_def)
    with ResetCapturing True show ?thesis
      by (simp add: fireTimer_def resetCapturing_def captureInv_def)
  next
    case EndEjection
    with inv True cb ce show ?thesis
      by (auto simp: fireTimer_def endEjection_def captureInv_def)
  next
    case (StopDeveloping i)
    with inv True cb ce show ?thesis
      by (simp add: fireTimer_def stopDeveloping_def captureInv_def)
  next
    case ReloadDone
    with inv True cb ce show ?thesis
      by (simp add: fireTimer_def reloadDone_def captureInv_def)
  qed
qed

lemma inv_step: "captureInv s \<Longrightarrow> captureInv (step e s)"
  by (cases e)
     (simp_all add: inv_takePhoto inv_handleReload inv_resetPhotos inv_clickFlash inv_clickLens
        inv_clickAuth inv_setRoom inv_setUser inv_pressPending inv_pressPhoto
        inv_releasePending inv_typeNote inv_onCaption inv_onInsert inv_resume inv_fetch
        inv_fireTimer,
      simp_all add: captureInv_def)

lemma inv_init: "captureInv init"
  by (simp add: captureInv_def init_def)

lemma reachable_inv: "reachable s \<Longrightarrow> captureInv s"
  by (induction rule: reachable.induct) (simp_all add: inv_init inv_step)

lemma reachable_run: "reachable s \<Longrightarrow> reachable (run es s)"
  unfolding run_def
  by (induction es arbitrary: s) (simp_all add: reach_step)

text \<open>
  An eject timer is only ever scheduled while the pending slot is empty, so the eject
  callback never replaces a pending photo.
\<close>

lemma eject_fires_into_empty_slot:
  assumes "reachable s" and "n < length (timers s)" and "isEject (snd (timers s ! n))"
  shows "pendingPhoto s = None"
proof -
  from assms(1) have "captureInv s" by (rule reachable_inv)
  then have slot: "countTimers isEject (timers s) = 0 \<or> pendingPhoto s = None"
    unfolding captureInv_def by (elim conjE disjE) simp_all
  show ?thesis
  proof (cases "countTimers isEject (timers s) = 0")
    case True
    from countTimers_zero_nth [OF True assms(2)] assms(3) show ?thesis by simp
  next
    case False
    with slot show ?thesis by simp
  qed
qed

subsubsection \<open>While the pending photo is ejecting\<close>

text \<open>
  A press on the pending card does nothing while the card is ejecting, because
  \<open>Polaroid.handleStart\<close> returns; \<open>bringToFront\<close> itself, called with the id of
  the pending photo, would clear the flag.
\<close>

lemma pressPending_while_ejecting:
  "pendingPhoto s = Some p \<Longrightarrow> isEjecting p \<Longrightarrow> pressPending t s = s"
  by (simp add: pressPending_def handleStart_def)

lemma bringToFront_clears_flag:
  "pendingPhoto s = Some p \<Longrightarrow>
   pendingPhoto (bringToFront (photo_id p) s) = Some (p\<lparr>isEjecting := False\<rparr>)"
  by (simp add: bringToFront_def Let_def)

lemma keptTwice_state:
  "pendingPhoto (run keptTwice init) = None \<and>
   awaitingInsert (run keptTwice init) = 1 \<and>
   timers (run keptTwice init) = [] \<and>
   state (run keptTwice init) =
     \<lparr>permissionGranted = True, isFlashOn = False, isCapturing = False, isPoweredOn = True\<rparr> \<and>
   shotsLeft (run keptTwice init) = 7 \<and>
   isReloading (run keptTwice init) = False \<and>
   isAiEnabled (run keptTwice init) = True \<and>
   length (inserts (outbox (run keptTwice init))) = 2"
  by (simp add: run_def keptTwice_def init_def setUser_def roomEffect_def clickLens_def
        shutterDisabled_def takePhoto_def frame_def Let_def fireTimer_def ejectPhoto_def
        ejectAs_def resetCapturing_def endEjection_def pressPending_def handleStart_def
        bringToFront_def render_def releasePending_def handlePendingDragEnd_def
        handlePendingDragEnd_resume_eq)

text \<open>
  C9. A signed-in user takes the photo \<open>a\<close>, waits for its ejection to end and drags
  it away twice while the first insert is in flight, so two inserts are sent. The first
  insert returns and empties the slot. The user takes the photo \<open>b\<close>: it is pending
  and ejecting, and the 3000 ms timer that ends its ejection is scheduled. Now the
  second insert returns: the rest of \<open>handlePendingDragEnd\<close> sets the slot to
  \<open>null\<close> without looking at what it holds, so \<open>b\<close> leaves the ejecting state, and
  the slot, by the return of an insert and not by its timer, which is still scheduled.
\<close>

theorem settled_insert_empties_ejecting_slot:
  "map_option photo_id (pendingPhoto (run secondCapture (run keptTwice init))) = Some ''b'' \<and>
   map_option isEjecting (pendingPhoto (run secondCapture (run keptTwice init))) = Some True \<and>
   map snd (timers (run secondCapture (run keptTwice init))) = [ResetCapturing, EndEjection] \<and>
   awaitingInsert (run secondCapture (run keptTwice init)) = 1 \<and>
   pendingPhoto (step (InsertSettles None) (run secondCapture (run keptTwice init))) = None \<and>
   map snd (timers (step (InsertSettles None) (run secondCapture (run keptTwice init))))
     = [ResetCapturing, EndEjection]"
  using keptTwice_state
  by (simp add: run_def secondCapture_def shutterDisabled_def takePhoto_def frame_def Let_def
        fireTimer_def ejectPhoto_def ejectAs_def handlePendingDragEnd_resume_eq)

end
